theory Spec2Isabelle
  imports Complex_Main "HOL-Library.AList"
begin

section \<open>The alert watcher of \<open>alert-watcher/app.py\<close>\<close>

text \<open>
  The watcher reads an access log line by line, keeps a rolling window of error
  observations, tracks the serving pool, and sends alerts through a gate with a
  cooldown and a maintenance switch. Each method of \<open>AlertWatcher\<close> is a function
  below; a leading underscore of a Python name is dropped (\<open>_is_error\<close> is
  \<open>is_error\<close>).

  Conventions of the model:
  \<^item> a Python \<open>str\<close> is a \<open>string\<close> whose characters are the code points below 256;
    text with higher code points is outside the model;
  \<^item> a Python \<open>int\<close> is an \<open>int\<close>; a Python \<open>float\<close> is a \<open>pyfloat\<close>: the rational
    it denotes, or one of the three special values. The quotient \<open>sum / len\<close> is
    the exact rational, its rounding to a double is not modelled;
  \<^item> what the interpreter and the libraries supply (\<open>json.loads\<close>, \<open>repr\<close> of floats and
    containers, the \<open>.2f\<close> format) is a parameter, the record \<open>runtime\<close>; the clock, the
    file system and the webhook's answer at one call of \<open>_notify\<close> are the record
    \<open>world\<close>;
  \<^item> an exception that leaves a method is a value: \<open>Inl\<close> of a sum, or the outcome
    \<open>Raised\<close>, which keeps the object as it was when the exception was raised.
\<close>

subsection \<open>Values decoded from a log line\<close>

datatype pyfloat = Finite rat | PosInf | NegInf | NaN

text \<open>What \<open>json.loads\<close> returns. \<open>JNull\<close> is Python's \<open>None\<close>; \<open>JObj\<close> lists the items
  of a \<open>dict\<close>, whose keys are distinct.\<close>

datatype json =
    JNull
  | JBool bool
  | JInt int
  | JFloat pyfloat
  | JStr string
  | JArr "json list"
  | JObj "(string \<times> json) list"

datatype exn = AttributeError | TypeError | ValueError | OverflowError | ZeroDivisionError

record runtime =
  json_loads :: "string \<Rightarrow> json option"   \<comment> \<open>\<open>None\<close>: \<open>json.JSONDecodeError\<close>\<close>
  py_repr :: "json \<Rightarrow> string"              \<comment> \<open>\<open>str\<close> of a float, a list or a dict\<close>
  fmt_2f :: "rat \<Rightarrow> string"                \<comment> \<open>the format \<open>:.2f\<close>\<close>

subsection \<open>Built-ins: truth value, \<open>strip\<close>, \<open>lower\<close>, \<open>split\<close>, \<open>str\<close>, \<open>int\<close>\<close>

fun truthy :: "json \<Rightarrow> bool" where
  "truthy JNull = False"
| "truthy (JBool b) = b"
| "truthy (JInt i) = (i \<noteq> 0)"
| "truthy (JFloat f) = (f \<noteq> Finite 0)"
| "truthy (JStr s) = (s \<noteq> [])"
| "truthy (JArr xs) = (xs \<noteq> [])"
| "truthy (JObj kvs) = (kvs \<noteq> [])"

text \<open>The characters \<open>str.strip()\<close> removes: those with \<open>isspace()\<close>.\<close>

definition is_space :: "char \<Rightarrow> bool" where
  "is_space c = (let n = (of_char c :: nat) in
     (9 \<le> n \<and> n \<le> 13) \<or> (28 \<le> n \<and> n \<le> 32) \<or> n = 133 \<or> n = 160)"

text \<open>The characters \<open>int()\<close> skips around a literal: the separators 28 to 31 are not
  among them.\<close>

definition is_int_space :: "char \<Rightarrow> bool" where
  "is_int_space c = (let n = (of_char c :: nat) in
     (9 \<le> n \<and> n \<le> 13) \<or> n = 32 \<or> n = 133 \<or> n = 160)"

definition strip_with :: "(char \<Rightarrow> bool) \<Rightarrow> string \<Rightarrow> string" where
  "strip_with p s = rev (dropWhile p (rev (dropWhile p s)))"

definition strip :: "string \<Rightarrow> string" where
  "strip s = strip_with is_space s"

definition lower_char :: "char \<Rightarrow> char" where
  "lower_char c = (let n = (of_char c :: nat) in
     if (65 \<le> n \<and> n \<le> 90) \<or> (192 \<le> n \<and> n \<le> 214) \<or> (216 \<le> n \<and> n \<le> 222)
     then char_of (n + 32) else c)"

definition lower :: "string \<Rightarrow> string" where
  "lower s = map lower_char s"

text \<open>\<open>s.split(",")\<close>: always at least one piece, empty pieces kept.\<close>

fun split_comma :: "string \<Rightarrow> string list" where
  "split_comma [] = [[]]"
| "split_comma (c # cs) =
     (if c = CHR '','' then [] # split_comma cs
      else (case split_comma cs of
              [] \<Rightarrow> [[c]]
            | w # ws \<Rightarrow> (c # w) # ws))"

definition is_digit :: "char \<Rightarrow> bool" where
  "is_digit c = (let n = (of_char c :: nat) in 48 \<le> n \<and> n \<le> 57)"

definition digit_val :: "char \<Rightarrow> nat" where
  "digit_val c = of_char c - 48"

definition digit_char :: "nat \<Rightarrow> char" where
  "digit_char d = char_of (48 + d)"

function str_nat :: "nat \<Rightarrow> string" where
  "str_nat n = (if n < 10 then [digit_char n] else str_nat (n div 10) @ [digit_char (n mod 10)])"
  by pat_completeness auto
termination
  by (relation "measure (\<lambda>n. n)") auto

declare str_nat.simps [simp del]

definition str_int :: "int \<Rightarrow> string" where
  "str_int i = (if i < 0 then CHR ''-'' # str_nat (nat (- i)) else str_nat (nat i))"

text \<open>\<open>str(v)\<close>. A string is itself; the text of a float, a list or a dict comes from
  the runtime.\<close>

fun py_str :: "runtime \<Rightarrow> json \<Rightarrow> string" where
  "py_str rt JNull = ''None''"
| "py_str rt (JBool b) = (if b then ''True'' else ''False'')"
| "py_str rt (JInt i) = str_int i"
| "py_str rt (JStr s) = s"
| "py_str rt v = py_repr rt v"

text \<open>The digits of a decimal literal: single underscores are allowed between two
  digits. \<open>digits_from acc s\<close> continues after a digit.\<close>

fun digits_from :: "nat \<Rightarrow> string \<Rightarrow> nat option" where
  "digits_from acc [] = Some acc"
| "digits_from acc [c] = (if is_digit c then Some (acc * 10 + digit_val c) else None)"
| "digits_from acc (c # d # ds) =
     (if is_digit c then digits_from (acc * 10 + digit_val c) (d # ds)
      else if c = CHR ''_'' \<and> is_digit d then digits_from (acc * 10 + digit_val d) ds
      else None)"

definition parse_digits :: "string \<Rightarrow> nat option" where
  "parse_digits s = (case s of
       [] \<Rightarrow> None
     | c # cs \<Rightarrow> if is_digit c then digits_from (digit_val c) cs else None)"

text \<open>\<open>int(s)\<close> for a string, base 10: \<open>None\<close> is \<open>ValueError\<close>. The interpreter's
  optional limit on the length of a literal is not modelled.\<close>

definition int_of_str :: "string \<Rightarrow> int option" where
  "int_of_str s =
     (let t = strip_with is_int_space s in
      case t of
        [] \<Rightarrow> None
      | c # cs \<Rightarrow>
          if c = CHR ''-'' then map_option (\<lambda>n. - int n) (parse_digits cs)
          else if c = CHR ''+'' then map_option int (parse_digits cs)
          else map_option int (parse_digits t))"

text \<open>\<open>int(f)\<close> for a float cuts towards zero.\<close>

definition trunc_rat :: "rat \<Rightarrow> int" where
  "trunc_rat q = (if 0 \<le> q then \<lfloor>q\<rfloor> else \<lceil>q\<rceil>)"

text \<open>\<open>int(v)\<close> for any decoded value.\<close>

fun py_int :: "json \<Rightarrow> exn + int" where
  "py_int JNull = Inl TypeError"
| "py_int (JBool b) = Inr (if b then 1 else 0)"
| "py_int (JInt i) = Inr i"
| "py_int (JFloat (Finite q)) = Inr (trunc_rat q)"
| "py_int (JFloat NaN) = Inl ValueError"
| "py_int (JFloat PosInf) = Inl OverflowError"
| "py_int (JFloat NegInf) = Inl OverflowError"
| "py_int (JStr s) = (case int_of_str s of None \<Rightarrow> Inl ValueError | Some n \<Rightarrow> Inr n)"
| "py_int (JArr xs) = Inl TypeError"
| "py_int (JObj kvs) = Inl TypeError"

text \<open>\<open>entry.get(key)\<close>: only a dict has the method; a missing key gives \<open>None\<close>.\<close>

fun py_get :: "json \<Rightarrow> string \<Rightarrow> exn + json" where
  "py_get (JObj kvs) k = Inr (case map_of kvs k of None \<Rightarrow> JNull | Some v \<Rightarrow> v)"
| "py_get v k = Inl AttributeError"

subsection \<open>Error classification\<close>

text \<open>The loop of \<open>_first_status\<close> over the candidates.\<close>

fun first_parsed :: "string list \<Rightarrow> int option" where
  "first_parsed [] = None"
| "first_parsed (part # rest) =
     (let part = strip part in
      if part = [] then first_parsed rest
      else (case int_of_str part of
              Some n \<Rightarrow> Some n
            | None \<Rightarrow> first_parsed rest))"

definition first_status :: "runtime \<Rightarrow> json \<Rightarrow> int option" where
  "first_status rt v =
     (if v = JNull then None
      else first_parsed (case v of
                           JArr xs \<Rightarrow> map (py_str rt) xs
                         | _ \<Rightarrow> split_comma (py_str rt v)))"

text \<open>The end of \<open>_is_error\<close>: \<open>None\<close> is no error; otherwise \<open>int(status_code) >= 500\<close>,
  with \<open>TypeError\<close> and \<open>ValueError\<close> caught.\<close>

definition status_is_error :: "json \<Rightarrow> exn + bool" where
  "status_is_error status_code =
     (if status_code = JNull then Inr False
      else (case py_int status_code of
              Inr n \<Rightarrow> Inr (500 \<le> n)
            | Inl TypeError \<Rightarrow> Inr False
            | Inl ValueError \<Rightarrow> Inr False
            | Inl e \<Rightarrow> Inl e))"

definition is_error :: "runtime \<Rightarrow> json \<Rightarrow> exn + bool" where
  "is_error rt entry =
     (case py_get entry ''upstream_status'' of
        Inl e \<Rightarrow> Inl e
      | Inr upstream_status \<Rightarrow>
          (case first_status rt upstream_status of
             Some n \<Rightarrow> status_is_error (JInt n)
           | None \<Rightarrow>
               (case py_get entry ''status'' of
                  Inl e \<Rightarrow> Inl e
                | Inr status_code \<Rightarrow> status_is_error status_code)))"

subsection \<open>The watcher object\<close>

text \<open>\<open>collections.deque(maxlen=n)\<close>: \<open>append\<close> adds at the right and, when the length
  exceeds \<open>maxlen\<close>, drops the leftmost element.\<close>

record deque =
  items :: "int list"
  maxlen :: nat

definition deque_append :: "deque \<Rightarrow> int \<Rightarrow> deque" where
  "deque_append d x =
     (let xs = items d @ [x] in d\<lparr>items := (if maxlen d < length xs then tl xs else xs)\<rparr>)"

record watcher =
  webhook_url :: string
  log_path :: string
  window :: deque
  error_threshold :: pyfloat
  cooldown_seconds :: int
  primary_pool :: string
  maintenance_flag :: string
  current_pool :: "string option"
  cooldowns :: "(string \<times> rat) list"
  error_alert_active :: bool

text \<open>The object that \<open>AlertWatcher.__init__\<close> builds for a window size that \<open>deque\<close>
  accepts.\<close>

definition fresh_watcher ::
  "string \<Rightarrow> string \<Rightarrow> nat \<Rightarrow> pyfloat \<Rightarrow> int \<Rightarrow> string option \<Rightarrow> string option
     \<Rightarrow> watcher" where
  "fresh_watcher url path window_size threshold cooldown primary flag =
     \<lparr>webhook_url = url,
      log_path = path,
      window = \<lparr>items = [], maxlen = window_size\<rparr>,
      error_threshold = threshold,
      cooldown_seconds = cooldown,
      primary_pool = lower (strip (case primary of None \<Rightarrow> [] | Some p \<Rightarrow> p)),
      maintenance_flag = strip (case flag of None \<Rightarrow> [] | Some f \<Rightarrow> f),
      current_pool = None,
      cooldowns = [],
      error_alert_active = False\<rparr>"

text \<open>\<open>AlertWatcher.__init__\<close>: \<open>deque(maxlen=n)\<close> raises \<open>ValueError\<close> for a negative \<open>n\<close>.\<close>

definition init ::
  "string \<Rightarrow> string \<Rightarrow> int \<Rightarrow> pyfloat \<Rightarrow> int \<Rightarrow> string option \<Rightarrow> string option
     \<Rightarrow> exn + watcher" where
  "init url path window_size threshold cooldown primary flag =
     (if window_size < 0 then Inl ValueError
      else Inr (fresh_watcher url path (nat window_size) threshold cooldown primary flag))"

subsection \<open>What a call does besides changing the object\<close>

text \<open>\<open>Event t m\<close> marks a call \<open>_notify(t, m)\<close>: the alert handed to the gate. \<open>Log m\<close> is
  a call \<open>log(m)\<close> (the time stamp that \<open>log\<close> puts in front is left out). \<open>Post url text\<close>
  is a call of \<open>requests.post\<close> with the payload \<open>{"text": text}\<close>.\<close>

datatype effect = Event string string | Log string | Post string string

datatype http_result = Response int string | RequestException string

record world =
  clock_check :: rat                                   \<comment> \<open>\<open>time.time()\<close> in \<open>_in_cooldown\<close>\<close>
  path_exists :: "string \<Rightarrow> bool"                   \<comment> \<open>\<open>os.path.exists\<close>\<close>
  requests_post :: "string \<Rightarrow> string \<Rightarrow> http_result"  \<comment> \<open>the answer to the call\<close>
  clock_sent :: rat                                    \<comment> \<open>\<open>time.time()\<close> after a good send\<close>

datatype outcome = Returned watcher "effect list" | Raised exn watcher "effect list"

fun after :: "outcome \<Rightarrow> watcher" where
  "after (Returned st fx) = st"
| "after (Raised e st fx) = st"

fun effects :: "outcome \<Rightarrow> effect list" where
  "effects (Returned st fx) = fx"
| "effects (Raised e st fx) = fx"

fun is_post :: "effect \<Rightarrow> bool" where
  "is_post (Post url text) = True"
| "is_post _ = False"

fun is_log :: "effect \<Rightarrow> bool" where
  "is_log (Log m) = True"
| "is_log _ = False"

fun is_alert :: "effect \<Rightarrow> bool" where
  "is_alert (Event t m) = True"
| "is_alert _ = False"

fun is_event :: "string \<Rightarrow> effect \<Rightarrow> bool" where
  "is_event t (Event t' m) = (t = t')"
| "is_event t _ = False"

subsection \<open>The notification gate\<close>

definition in_cooldown :: "world \<Rightarrow> watcher \<Rightarrow> string \<Rightarrow> bool" where
  "in_cooldown w st alert_type =
     (case map_of (cooldowns st) alert_type of
        None \<Rightarrow> False
      | Some last_sent \<Rightarrow> clock_check w - last_sent < of_int (cooldown_seconds st))"

definition maintenance_active :: "world \<Rightarrow> watcher \<Rightarrow> bool" where
  "maintenance_active w st =
     (maintenance_flag st \<noteq> [] \<and> path_exists w (maintenance_flag st))"

definition notify :: "world \<Rightarrow> watcher \<Rightarrow> string \<Rightarrow> string \<Rightarrow> watcher \<times> effect list" where
  "notify w st alert_type message =
     (if in_cooldown w st alert_type then (st, [Event alert_type message])
      else if maintenance_active w st then
        (st, [Event alert_type message,
              Log (''Maintenance mode active; suppressing '' @ alert_type @ '' alert: ''
                   @ message)])
      else if webhook_url st = [] then
        (st, [Event alert_type message,
              Log (''Cannot send '' @ alert_type @ '' alert (no webhook configured): ''
                   @ message)])
      else
        (let payload = '':rotating_light: '' @ message in
         case requests_post w (webhook_url st) payload of
           Response status_code text \<Rightarrow>
             if 400 \<le> status_code then
               (st, [Event alert_type message,
                     Post (webhook_url st) payload,
                     Log (''Slack webhook returned '' @ str_int status_code @ '': ''
                          @ strip text)])
             else
               (st\<lparr>cooldowns := AList.update alert_type (clock_sent w) (cooldowns st)\<rparr>,
                [Event alert_type message,
                 Post (webhook_url st) payload,
                 Log (''Sent '' @ alert_type @ '' alert: '' @ message)])
         | RequestException exc \<Rightarrow>
             (st, [Event alert_type message,
                   Post (webhook_url st) payload,
                   Log (''Failed to send '' @ alert_type @ '' alert: '' @ exc)])))"

subsection \<open>The rolling error rate\<close>

text \<open>\<open>error_rate >= self.error_threshold\<close>: a comparison with \<open>nan\<close> is false.\<close>

fun rate_ge :: "rat \<Rightarrow> pyfloat \<Rightarrow> bool" where
  "rate_ge q (Finite t) = (t \<le> q)"
| "rate_ge q PosInf = False"
| "rate_ge q NegInf = True"
| "rate_ge q NaN = False"

definition error_rate_of :: "deque \<Rightarrow> rat" where
  "error_rate_of d = of_int (sum_list (items d)) / of_nat (length (items d))"

text \<open>The message of the \<open>error_rate\<close> alert.\<close>

definition rate_message :: "runtime \<Rightarrow> rat \<Rightarrow> nat \<Rightarrow> string" where
  "rate_message rt error_rate n =
     ''High upstream error rate detected: '' @ fmt_2f rt (error_rate * 100)
     @ ''% over last '' @ str_nat n @ '' requests.''"

definition record_error :: "runtime \<Rightarrow> world \<Rightarrow> watcher \<Rightarrow> json \<Rightarrow> outcome" where
  "record_error rt w st entry =
     (case is_error rt entry of
        Inl e \<Rightarrow> Raised e st []
      | Inr b \<Rightarrow>
          (let st1 = st\<lparr>window := deque_append (window st) (if b then 1 else 0)\<rparr>;
               n = length (items (window st1))
           in if n < maxlen (window st1) then Returned st1 []
              else if n = 0 then Raised ZeroDivisionError st1 []
              else
                (let error_rate = error_rate_of (window st1) in
                 if rate_ge error_rate (error_threshold st1) then
                   (if \<not> error_alert_active st1 then
                      (case notify w st1 ''error_rate'' (rate_message rt error_rate n) of
                         (st2, fx) \<Rightarrow> Returned (st2\<lparr>error_alert_active := True\<rparr>) fx)
                    else Returned st1 [])
                 else Returned (st1\<lparr>error_alert_active := False\<rparr>) [])))"

subsection \<open>The serving pool\<close>

text \<open>\<open>status != 200\<close> is false for the integer 200 and for the float 200.0; \<open>True\<close>
  equals 1.\<close>

fun equals_200 :: "json \<Rightarrow> bool" where
  "equals_200 (JInt i) = (i = 200)"
| "equals_200 (JFloat (Finite q)) = (q = 200)"
| "equals_200 _ = False"

text \<open>\<open>(entry.get("pool") or "").strip().lower()\<close>: a value that counts as true and is
  not a string has no \<open>strip\<close>.\<close>

definition pool_of :: "json \<Rightarrow> exn + string" where
  "pool_of p =
     (if \<not> truthy p then Inr (lower (strip []))
      else (case p of
              JStr s \<Rightarrow> Inr (lower (strip s))
            | _ \<Rightarrow> Inl AttributeError))"

text \<open>\<open>entry.get("release") or "unknown"\<close>, as the f-strings print it.\<close>

definition release_of :: "runtime \<Rightarrow> json \<Rightarrow> string" where
  "release_of rt r = py_str rt (if truthy r then r else JStr ''unknown'')"

text \<open>The three texts of \<open>_check_failover\<close>; \<open>CHR 0x27\<close> is the single quote.\<close>

definition initial_message :: "string \<Rightarrow> string \<Rightarrow> string" where
  "initial_message pool release =
     ''Initial pool observed: '' @ pool @ '' (release '' @ release @ '')''"

definition recovery_message :: "string \<Rightarrow> string \<Rightarrow> string \<Rightarrow> string" where
  "recovery_message pool previous_pool release =
     ''Traffic recovered to primary pool '' @ [CHR 0x27] @ pool @ [CHR 0x27]
     @ '' (was '' @ [CHR 0x27] @ previous_pool @ [CHR 0x27] @ ''). Release '' @ release
     @ '' now serving.''"

definition failover_message :: "string \<Rightarrow> string \<Rightarrow> string \<Rightarrow> string" where
  "failover_message previous_pool pool release =
     ''Failover detected: traffic moved from '' @ [CHR 0x27] @ previous_pool @ [CHR 0x27]
     @ '' to '' @ [CHR 0x27] @ pool @ [CHR 0x27] @ ''. Release '' @ release
     @ '' now serving.''"

definition check_failover :: "runtime \<Rightarrow> world \<Rightarrow> watcher \<Rightarrow> json \<Rightarrow> outcome" where
  "check_failover rt w st entry =
     (case py_get entry ''status'' of
        Inl e \<Rightarrow> Raised e st []
      | Inr status \<Rightarrow>
     (case py_get entry ''pool'' of
        Inl e \<Rightarrow> Raised e st []
      | Inr p \<Rightarrow>
     (case pool_of p of
        Inl e \<Rightarrow> Raised e st []
      | Inr pool \<Rightarrow>
     (case py_get entry ''release'' of
        Inl e \<Rightarrow> Raised e st []
      | Inr r \<Rightarrow>
          (let release = release_of rt r in
           if pool = [] \<or> \<not> equals_200 status then Returned st []
           else
             (let previous_pool = current_pool st in
              if previous_pool = Some pool then Returned st []
              else
                (let st1 = st\<lparr>current_pool := Some pool\<rparr> in
                 case previous_pool of
                   None \<Rightarrow> Returned st1 [Log (initial_message pool release)]
                 | Some prev \<Rightarrow>
                     if primary_pool st1 \<noteq> [] \<and> pool = primary_pool st1 then
                       (case notify w st1 ''recovery'' (recovery_message pool prev release) of
                          (st2, fx) \<Rightarrow> Returned st2 fx)
                     else
                       (case notify w st1 ''failover'' (failover_message prev pool release) of
                          (st2, fx) \<Rightarrow> Returned st2 fx))))))))"

subsection \<open>One line of the log\<close>

text \<open>\<open>_parse_entry\<close>: the decoded value, or \<open>None\<close> for a blank or undecodable line.\<close>

definition parse_entry :: "runtime \<Rightarrow> string \<Rightarrow> json \<times> effect list" where
  "parse_entry rt line =
     (let line = strip line in
      if line = [] then (JNull, [])
      else (case json_loads rt line of
              None \<Rightarrow> (JNull, [Log (''Skipping unparsable log line: '' @ line)])
            | Some data \<Rightarrow> (data, [])))"

text \<open>\<open>process_line\<close>. \<open>w1\<close> is the world at the \<open>_notify\<close> of \<open>_record_error\<close>, \<open>w2\<close> at the
  \<open>_notify\<close> of \<open>_check_failover\<close>.\<close>

definition process_line :: "runtime \<Rightarrow> world \<Rightarrow> world \<Rightarrow> watcher \<Rightarrow> string \<Rightarrow> outcome" where
  "process_line rt w1 w2 st line =
     (case parse_entry rt line of
        (entry, fx0) \<Rightarrow>
          if \<not> truthy entry then Returned st fx0
          else (case record_error rt w1 st entry of
                  Raised e st1 fx1 \<Rightarrow> Raised e st1 (fx0 @ fx1)
                | Returned st1 fx1 \<Rightarrow>
                    (case check_failover rt w2 st1 entry of
                       Raised e st2 fx2 \<Rightarrow> Raised e st2 (fx0 @ fx1 @ fx2)
                     | Returned st2 fx2 \<Rightarrow> Returned st2 (fx0 @ fx1 @ fx2))))"


subsection \<open>Notions the properties are stated with\<close>

text \<open>The window after one more entry has been recorded; \<open>None\<close> when the
  classification of the entry raises.\<close>

definition window_after :: "runtime \<Rightarrow> deque \<Rightarrow> json \<Rightarrow> deque option" where
  "window_after rt d entry =
     (case is_error rt entry of
        Inl e \<Rightarrow> None
      | Inr b \<Rightarrow> Some (deque_append d (if b then 1 else 0)))"




text \<open>The classification as the specification words it: the tokens of
  \<open>upstream_status\<close>, the first of them that is an integer, else the \<open>status\<close> field; no
  error when that is absent or not a number, else an error when the code is at least
  500.\<close>

definition tokens_of :: "runtime \<Rightarrow> json \<Rightarrow> string list" where
  "tokens_of rt v =
     (case v of
        JNull \<Rightarrow> []
      | JArr xs \<Rightarrow> map (\<lambda>x. strip (py_str rt x)) xs
      | _ \<Rightarrow> map strip (split_comma (py_str rt v)))"

definition resolved_code :: "runtime \<Rightarrow> (string \<times> json) list \<Rightarrow> json" where
  "resolved_code rt kvs =
     (case List.find (\<lambda>t. int_of_str t \<noteq> None)
             (tokens_of rt (case map_of kvs ''upstream_status'' of
                              None \<Rightarrow> JNull | Some v \<Rightarrow> v)) of
        Some t \<Rightarrow> JStr t
      | None \<Rightarrow> (case map_of kvs ''status'' of None \<Rightarrow> JNull | Some v \<Rightarrow> v))"

fun code_at_least_500 :: "json \<Rightarrow> bool" where
  "code_at_least_500 (JInt i) = (500 \<le> i)"
| "code_at_least_500 (JFloat (Finite q)) = (500 \<le> q)"
| "code_at_least_500 (JFloat PosInf) = True"
| "code_at_least_500 (JStr s) = (case int_of_str s of None \<Rightarrow> False | Some n \<Rightarrow> 500 \<le> n)"
| "code_at_least_500 _ = False"

definition spec_is_error :: "runtime \<Rightarrow> (string \<times> json) list \<Rightarrow> bool" where
  "spec_is_error rt kvs = code_at_least_500 (resolved_code rt kvs)"

subsection \<open>Sample inputs for the ground instances\<close>

text \<open>\<open>json.loads\<close> on the lines used below, and interpreter texts that no instance
  looks at.\<close>

definition sample_loads :: "string \<Rightarrow> json option" where
  \<open>sample_loads s =
     (if s = ''5'' then Some (JInt 5)
      else if s = ''{}'' then Some (JObj [])
      else if s = ''{"status": 503}'' then Some (JObj [(''status'', JInt 503)])
      else if s = ''{"status": 1e999}'' then Some (JObj [(''status'', JFloat PosInf)])
      else if s = ''{"status": 200.0, "pool": "blue"}''
        then Some (JObj [(''status'', JFloat (Finite 200)), (''pool'', JStr ''blue'')])
      else None)\<close>

text \<open>Two of these lines by name.\<close>

definition float_status_line :: string where
  \<open>float_status_line = ''{"status": 200.0, "pool": "blue"}''\<close>

definition infinite_status_line :: string where
  \<open>infinite_status_line = ''{"status": 1e999}''\<close>

definition sample_runtime :: runtime where
  "sample_runtime =
     \<lparr>json_loads = sample_loads, py_repr = (\<lambda>v. ''<repr>''), fmt_2f = (\<lambda>q. ''<pct>'')\<rparr>"

definition sample_world :: world where
  "sample_world =
     \<lparr>clock_check = 1000,
      path_exists = (\<lambda>p. False),
      requests_post = (\<lambda>url text. Response 200 ''ok''),
      clock_sent = 1000\<rparr>"

text \<open>A world in which the maintenance file exists.\<close>

definition maintenance_world :: world where
  "maintenance_world = sample_world\<lparr>path_exists := (\<lambda>p. True)\<rparr>"

text \<open>A world in which the webhook answers 500.\<close>

definition failing_world :: world where
  "failing_world = sample_world\<lparr>requests_post := (\<lambda>url text. Response 500 ''down'')\<rparr>"

definition sample_watcher :: watcher where
  "sample_watcher =
     fresh_watcher ''http://hook'' ''/var/log/nginx/app_access.log'' 2 (Finite (1 / 2)) 300
       (Some ''blue'') (Some ''/tmp/maintenance'')"

definition ok_entry :: json where
  "ok_entry = JObj [(''status'', JInt 200), (''pool'', JStr ''blue'')]"

definition bad_entry :: json where
  "bad_entry = JObj [(''upstream_status'', JStr ''502, 200''), (''status'', JInt 502)]"

text \<open>The sample watcher 100 seconds after an \<open>error_rate\<close> alert was sent.\<close>

definition cooled_watcher :: watcher where
  "cooled_watcher = sample_watcher\<lparr>cooldowns := [(''error_rate'', 900)]\<rparr>"

text \<open>The sample watcher after one entry with an error: one observation, window not yet
  full.\<close>

definition warm_watcher :: watcher where
  "warm_watcher = after (record_error sample_runtime sample_world sample_watcher bad_entry)"




text \<open>A watcher built with window size 0.\<close>

definition zero_watcher :: watcher where
  "zero_watcher = fresh_watcher ''http://hook'' ''/var/log/nginx/app_access.log'' 0
                    (Finite (1 / 2)) 300 None None"

text \<open>A line with status 503.\<close>

definition error_line :: string where
  \<open>error_line = ''{"status": 503}''\<close>

text \<open>The sample watcher while pool green serves, and while pool blue serves.\<close>

definition green_watcher :: watcher where
  "green_watcher = sample_watcher\<lparr>current_pool := Some ''green''\<rparr>"

definition blue_watcher :: watcher where
  "blue_watcher = sample_watcher\<lparr>current_pool := Some ''blue''\<rparr>"

text \<open>A good request served by pool green, release v2.\<close>

definition green_entry :: json where
  "green_entry = JObj [(''status'', JInt 200), (''pool'', JStr '' Green ''),
                       (''release'', JStr ''v2'')]"

section \<open>Properties\<close>

subsection \<open>The gate\<close>

lemma notify_keeps:
  "fst (notify w st t m) = st\<lparr>cooldowns := cooldowns (fst (notify w st t m))\<rparr>"
  by (simp add: notify_def Let_def split: http_result.splits)

lemma notify_alerts: "filter is_alert (snd (notify w st t m)) = [Event t m]"
  by (simp add: notify_def Let_def split: http_result.splits)

lemma notify_events:
  "filter (is_event t') (snd (notify w st t m)) = (if t' = t then [Event t m] else [])"
  by (simp add: notify_def Let_def split: http_result.splits)

text \<open>
  C7, as the code has it. A dispatch attempt whose alert type was last sent less than
  \<open>cooldown_seconds\<close> ago is suppressed with no call of the webhook, no diagnostic line
  and no change of the object; conversely an attempt that neither calls the webhook
  nor writes a diagnostic line is in cooldown. (An attempt outside cooldown can still
  be suppressed without a webhook call, by maintenance mode or a missing webhook URL,
  each with a diagnostic line.) The time of the last dispatch changes only on a send
  that was answered with a status below 400, and then becomes the time of that send;
  an answer of 400 or more, or a transport error, leaves the whole object unchanged.
\<close>

theorem notify_cooldown_gate:
  "(in_cooldown w st t \<longrightarrow> notify w st t m = (st, [Event t m]))
   \<and> (filter is_post (snd (notify w st t m)) = [] \<and> filter is_log (snd (notify w st t m)) = []
        \<longrightarrow> in_cooldown w st t)
   \<and> (cooldowns (fst (notify w st t m)) \<noteq> cooldowns st \<longrightarrow>
        (\<exists>code text.
            requests_post w (webhook_url st) ('':rotating_light: '' @ m) = Response code text
          \<and> code < 400
          \<and> filter is_post (snd (notify w st t m))
              = [Post (webhook_url st) ('':rotating_light: '' @ m)]
          \<and> cooldowns (fst (notify w st t m)) = AList.update t (clock_sent w) (cooldowns st)))
   \<and> ((\<exists>code text.
            requests_post w (webhook_url st) ('':rotating_light: '' @ m) = Response code text
          \<and> 400 \<le> code)
        \<or> (\<exists>exc. requests_post w (webhook_url st) ('':rotating_light: '' @ m)
                   = RequestException exc)
        \<longrightarrow> fst (notify w st t m) = st)"
  by (auto simp add: notify_def Let_def split: http_result.splits)

theorem notify_cooldown_gate_witness:
  "in_cooldown sample_world cooled_watcher ''error_rate''
   \<and> notify sample_world cooled_watcher ''error_rate'' ''high''
       = (cooled_watcher, [Event ''error_rate'' ''high''])
   \<and> cooldowns (fst (notify sample_world sample_watcher ''error_rate'' ''high''))
       \<noteq> cooldowns sample_watcher
   \<and> cooldowns (fst (notify sample_world sample_watcher ''error_rate'' ''high''))
       = AList.update ''error_rate'' (clock_sent sample_world) (cooldowns sample_watcher)
   \<and> requests_post failing_world (webhook_url sample_watcher) ('':rotating_light: '' @ ''high'')
       = Response 500 ''down''
   \<and> fst (notify failing_world sample_watcher ''error_rate'' ''high'') = sample_watcher"
proof -
  have h1: "in_cooldown sample_world cooled_watcher ''error_rate''"
    by code_simp
  have h2: "cooldowns (fst (notify sample_world sample_watcher ''error_rate'' ''high''))
              \<noteq> cooldowns sample_watcher"
    by code_simp
  have h3: "requests_post failing_world (webhook_url sample_watcher)
              ('':rotating_light: '' @ ''high'') = Response 500 ''down''"
    by code_simp
  have c1: "notify sample_world cooled_watcher ''error_rate'' ''high''
              = (cooled_watcher, [Event ''error_rate'' ''high''])"
    using notify_cooldown_gate [of sample_world cooled_watcher "''error_rate''" "''high''"] h1
    by blast
  have c2: "cooldowns (fst (notify sample_world sample_watcher ''error_rate'' ''high''))
              = AList.update ''error_rate'' (clock_sent sample_world) (cooldowns sample_watcher)"
    using notify_cooldown_gate [of sample_world sample_watcher "''error_rate''" "''high''"] h2
    by blast
  have "(400::int) \<le> 500" by simp
  with h3 have c3: "fst (notify failing_world sample_watcher ''error_rate'' ''high'')
                      = sample_watcher"
    using notify_cooldown_gate [of failing_world sample_watcher "''error_rate''" "''high''"]
    by blast
  from h1 h2 h3 c1 c2 c3 show ?thesis by blast
qed

text \<open>
  C7 as it is stated fails: with the maintenance file present and no alert sent
  before, the attempt is suppressed with no call of the webhook, and it is not in
  cooldown.
\<close>

theorem notify_suppressed_outside_cooldown:
  "\<not> in_cooldown maintenance_world sample_watcher ''error_rate''
   \<and> filter is_post (snd (notify maintenance_world sample_watcher ''error_rate'' ''high'')) = []
   \<and> cooldowns sample_watcher = []"
  by code_simp

text \<open>
  C8. While a maintenance file is configured and exists, no dispatch attempt calls the
  webhook. The file system is asked at the attempt itself, after the cooldown check:
  from one and the same object an attempt outside cooldown is suppressed when the
  file exists at that moment, with the one diagnostic line that names the alert type
  and the message, and calls the webhook when the file does not exist at that moment
  (and a webhook URL is set); the object keeps no earlier answer.
\<close>

theorem notify_maintenance:
  "(maintenance_flag st \<noteq> [] \<and> path_exists w (maintenance_flag st) \<longrightarrow>
      filter is_post (snd (notify w st t m)) = [])
   \<and> (\<not> in_cooldown w st t \<and> maintenance_flag st \<noteq> [] \<and> path_exists w (maintenance_flag st)
        \<longrightarrow> notify w st t m =
          (st, [Event t m,
                Log (''Maintenance mode active; suppressing '' @ t @ '' alert: '' @ m)]))
   \<and> (\<not> in_cooldown w st t \<and> webhook_url st \<noteq> [] \<and> \<not> path_exists w (maintenance_flag st)
        \<longrightarrow> filter is_post (snd (notify w st t m))
          = [Post (webhook_url st) ('':rotating_light: '' @ m)])"
  by (auto simp add: notify_def maintenance_active_def Let_def split: http_result.splits)

theorem notify_maintenance_witness:
  "maintenance_flag sample_watcher \<noteq> []
   \<and> path_exists maintenance_world (maintenance_flag sample_watcher)
   \<and> \<not> in_cooldown maintenance_world sample_watcher ''failover''
   \<and> filter is_post (snd (notify maintenance_world sample_watcher ''failover'' ''moved'')) = []
   \<and> notify maintenance_world sample_watcher ''failover'' ''moved'' =
        (sample_watcher,
         [Event ''failover'' ''moved'',
          Log (''Maintenance mode active; suppressing '' @ ''failover'' @ '' alert: ''
               @ ''moved'')])
   \<and> \<not> in_cooldown sample_world sample_watcher ''failover''
   \<and> webhook_url sample_watcher \<noteq> []
   \<and> \<not> path_exists sample_world (maintenance_flag sample_watcher)
   \<and> filter is_post (snd (notify sample_world sample_watcher ''failover'' ''moved''))
        = [Post (webhook_url sample_watcher) ('':rotating_light: '' @ ''moved'')]"
proof -
  have h1: "maintenance_flag sample_watcher \<noteq> []" by code_simp
  have h2: "path_exists maintenance_world (maintenance_flag sample_watcher)" by code_simp
  have h3: "\<not> in_cooldown maintenance_world sample_watcher ''failover''" by code_simp
  have h4: "\<not> in_cooldown sample_world sample_watcher ''failover''" by code_simp
  have h5: "webhook_url sample_watcher \<noteq> []" by code_simp
  have h6: "\<not> path_exists sample_world (maintenance_flag sample_watcher)" by code_simp
  note on = notify_maintenance [of sample_watcher maintenance_world "''failover''" "''moved''"]
  note off = notify_maintenance [of sample_watcher sample_world "''failover''" "''moved''"]
  have c1: "filter is_post (snd (notify maintenance_world sample_watcher ''failover'' ''moved''))
              = []"
    using on h1 h2 by blast
  have c2: "notify maintenance_world sample_watcher ''failover'' ''moved'' =
              (sample_watcher,
               [Event ''failover'' ''moved'',
                Log (''Maintenance mode active; suppressing '' @ ''failover'' @ '' alert: ''
                     @ ''moved'')])"
    using on h1 h2 h3 by blast
  have c3: "filter is_post (snd (notify sample_world sample_watcher ''failover'' ''moved''))
              = [Post (webhook_url sample_watcher) ('':rotating_light: '' @ ''moved'')]"
    using off h4 h5 h6 by blast
  from h1 h2 h3 h4 h5 h6 c1 c2 c3 show ?thesis by blast
qed

subsection \<open>The rolling window\<close>

lemma deque_append_maxlen [simp]: "maxlen (deque_append d x) = maxlen d"
  by (simp add: deque_append_def Let_def)

lemma deque_append_nonempty: "1 \<le> maxlen d \<Longrightarrow> items (deque_append d x) \<noteq> []"
  by (cases "items d") (auto simp add: deque_append_def Let_def)

lemma deque_append_items:
  "1 \<le> maxlen d \<Longrightarrow> length (items d) \<le> maxlen d \<Longrightarrow>
   items (deque_append d x) =
     (if length (items d) < maxlen d then items d @ [x] else tl (items d) @ [x])"
  by (cases "items d") (auto simp add: deque_append_def Let_def)

lemma deque_append_length:
  "length (items d) \<le> maxlen d \<Longrightarrow> length (items (deque_append d x)) \<le> maxlen d"
  by (auto simp add: deque_append_def Let_def)

lemma window_after_maxlen: "window_after rt d entry = Some d' \<Longrightarrow> maxlen d' = maxlen d"
  by (auto simp add: window_after_def split: sum.splits)

lemma record_error_raises:
  "window_after rt (window st) entry = None \<Longrightarrow>
   \<exists>e. is_error rt entry = Inl e \<and> record_error rt w st entry = Raised e st []"
  by (auto simp add: window_after_def record_error_def split: sum.splits)

lemma record_error_unfold:
  assumes "window_after rt (window st) entry = Some d"
  shows "record_error rt w st entry =
     (if length (items d) < maxlen d then Returned (st\<lparr>window := d\<rparr>) []
      else if items d = [] then Raised ZeroDivisionError (st\<lparr>window := d\<rparr>) []
      else if rate_ge (error_rate_of d) (error_threshold st) then
        (if \<not> error_alert_active st then
           Returned
             ((fst (notify w (st\<lparr>window := d\<rparr>) ''error_rate''
                      (rate_message rt (error_rate_of d) (length (items d)))))
                \<lparr>error_alert_active := True\<rparr>)
             (snd (notify w (st\<lparr>window := d\<rparr>) ''error_rate''
                      (rate_message rt (error_rate_of d) (length (items d)))))
         else Returned (st\<lparr>window := d\<rparr>) [])
      else Returned (st\<lparr>window := d, error_alert_active := False\<rparr>) [])"
proof -
  from assms obtain b where b: "is_error rt entry = Inr b"
    and d: "d = deque_append (window st) (if b then 1 else 0)"
    by (auto simp add: window_after_def split: sum.splits)
  show ?thesis
    unfolding record_error_def b d by (simp add: Let_def split_beta)
qed










text \<open>
  C9. With a capacity of at least 1 the call never raises \<open>ZeroDivisionError\<close>; given
  that the window holds at most its capacity, a call that makes a rate decision (it
  produces an effect or changes the active flag) has a window whose length equals the
  capacity. With window size 0 the window built by \<open>__init__\<close> is empty and stays so, and
  the first entry that is classified raises \<open>ZeroDivisionError\<close>.
\<close>

theorem rate_division_defined:
  "(1 \<le> maxlen (window st) \<longrightarrow>
      (\<forall>st' fx. record_error rt w st entry \<noteq> Raised ZeroDivisionError st' fx))
   \<and> (1 \<le> maxlen (window st) \<and> length (items (window st)) \<le> maxlen (window st)
        \<and> (effects (record_error rt w st entry) \<noteq> []
             \<or> error_alert_active (after (record_error rt w st entry)) \<noteq> error_alert_active st)
      \<longrightarrow> length (items (window (after (record_error rt w st entry)))) = maxlen (window st))
   \<and> (init url path 0 thr cd prim flag = Inr st0 \<and> is_error rt entry = Inr b \<longrightarrow>
        items (window st0) = []
        \<and> record_error rt w st0 entry = Raised ZeroDivisionError st0 [])"
proof (intro conjI impI)
  assume m: "1 \<le> maxlen (window st)"
  show "\<forall>st' fx. record_error rt w st entry \<noteq> Raised ZeroDivisionError st' fx"
  proof (cases "window_after rt (window st) entry")
    case None
    from record_error_raises [OF None, of w] obtain e where
      e: "is_error rt entry = Inl e" and r: "record_error rt w st entry = Raised e st []"
      by blast
    have "e \<noteq> ZeroDivisionError"
      using e
      by (auto simp add: is_error_def status_is_error_def
               split: sum.splits option.splits if_splits exn.splits elim: py_int.elims py_get.elims)
    with r show ?thesis by simp
  next
    case (Some d)
    then have "d = deque_append (window st) (if (\<exists>b. is_error rt entry = Inr b \<and> b) then 1 else 0)"
      by (auto simp add: window_after_def split: sum.splits)
    then have "items d \<noteq> []" using deque_append_nonempty [OF m] by simp
    then show ?thesis by (simp add: record_error_unfold [OF Some])
  qed
next
  assume a: "1 \<le> maxlen (window st) \<and> length (items (window st)) \<le> maxlen (window st)
        \<and> (effects (record_error rt w st entry) \<noteq> []
             \<or> error_alert_active (after (record_error rt w st entry)) \<noteq> error_alert_active st)"
  show "length (items (window (after (record_error rt w st entry)))) = maxlen (window st)"
  proof (cases "window_after rt (window st) entry")
    case None
    from record_error_raises [OF None, of w] a show ?thesis by auto
  next
    case (Some d)
    have ml: "maxlen d = maxlen (window st)" by (rule window_after_maxlen [OF Some])
    from Some obtain x where "d = deque_append (window st) x"
      by (auto simp add: window_after_def split: sum.splits)
    with a have le: "length (items d) \<le> maxlen (window st)"
      using deque_append_length by blast
    let ?n = "notify w (st\<lparr>window := d\<rparr>) ''error_rate''
                (rate_message rt (error_rate_of d) (length (items d)))"
    have k: "fst ?n = (st\<lparr>window := d\<rparr>)\<lparr>cooldowns := cooldowns (fst ?n)\<rparr>"
      by (rule notify_keeps)
    have wn: "window (fst ?n) = d" by (subst k) simp
    show ?thesis
      using a le ml wn
      by (auto simp add: record_error_unfold [OF Some] split: if_splits)
  qed
next
  assume a: "init url path 0 thr cd prim flag = Inr st0 \<and> is_error rt entry = Inr b"
  then have st0: "st0 = fresh_watcher url path 0 thr cd prim flag"
    by (simp add: init_def)
  show "items (window st0) = []" by (simp add: st0 fresh_watcher_def)
  from a show "record_error rt w st0 entry = Raised ZeroDivisionError st0 []"
    by (simp add: record_error_def st0 fresh_watcher_def deque_append_def Let_def)
qed

theorem rate_division_defined_witness:
  "1 \<le> maxlen (window warm_watcher)
   \<and> length (items (window warm_watcher)) \<le> maxlen (window warm_watcher)
   \<and> effects (record_error sample_runtime sample_world warm_watcher bad_entry) \<noteq> []
   \<and> record_error sample_runtime sample_world warm_watcher bad_entry
       \<noteq> Raised ZeroDivisionError warm_watcher []
   \<and> length (items (window (after (record_error sample_runtime sample_world warm_watcher
                                      bad_entry))))
       = maxlen (window warm_watcher)
   \<and> init ''http://hook'' ''/var/log/nginx/app_access.log'' 0 (Finite (1 / 2)) 300 None None
       = Inr zero_watcher
   \<and> is_error sample_runtime ok_entry = Inr False
   \<and> items (window zero_watcher) = []
   \<and> record_error sample_runtime sample_world zero_watcher ok_entry
       = Raised ZeroDivisionError zero_watcher []"
proof -
  have h1: "1 \<le> maxlen (window warm_watcher)" by code_simp
  have h2: "length (items (window warm_watcher)) \<le> maxlen (window warm_watcher)" by code_simp
  have h3: "effects (record_error sample_runtime sample_world warm_watcher bad_entry) \<noteq> []"
    by code_simp
  have h4: "init ''http://hook'' ''/var/log/nginx/app_access.log'' 0 (Finite (1 / 2)) 300 None None
              = Inr zero_watcher"
    by code_simp
  have h5: "is_error sample_runtime ok_entry = Inr False" by code_simp
  note warm = rate_division_defined [of warm_watcher sample_runtime sample_world bad_entry]
  note zero = rate_division_defined [where st = zero_watcher and rt = sample_runtime
      and w = sample_world and entry = ok_entry and url = "''http://hook''"
      and path = "''/var/log/nginx/app_access.log''" and thr = "Finite (1 / 2)" and cd = 300
      and prim = None and flag = None and ?st0.0 = zero_watcher and b = False]
  have c1: "record_error sample_runtime sample_world warm_watcher bad_entry
              \<noteq> Raised ZeroDivisionError warm_watcher []"
    using warm h1 by blast
  have c2: "length (items (window (after (record_error sample_runtime sample_world warm_watcher
                                            bad_entry))))
              = maxlen (window warm_watcher)"
    using warm h1 h2 h3 by blast
  have c3: "items (window zero_watcher) = []
            \<and> record_error sample_runtime sample_world zero_watcher ok_entry
                = Raised ZeroDivisionError zero_watcher []"
    using zero h4 h5 by blast
  from h1 h2 h3 h4 h5 c1 c2 c3 show ?thesis by blast
qed

subsection \<open>One line\<close>

lemma record_error_window:
  "window_after rt (window st) entry = Some d \<Longrightarrow>
   window (after (record_error rt w st entry)) = d"
proof -
  assume d: "window_after rt (window st) entry = Some d"
  let ?n = "notify w (st\<lparr>window := d\<rparr>) ''error_rate''
              (rate_message rt (error_rate_of d) (length (items d)))"
  have k: "fst ?n = (st\<lparr>window := d\<rparr>)\<lparr>cooldowns := cooldowns (fst ?n)\<rparr>"
    by (rule notify_keeps)
  have "window (fst ?n) = d" by (subst k) simp
  then show ?thesis by (simp add: record_error_unfold [OF d])
qed

lemma record_error_pool:
  "current_pool (after (record_error rt w st entry)) = current_pool st"
proof (cases "window_after rt (window st) entry")
  case None
  from record_error_raises [OF None, of w] show ?thesis by auto
next
  case (Some d)
  let ?n = "notify w (st\<lparr>window := d\<rparr>) ''error_rate''
              (rate_message rt (error_rate_of d) (length (items d)))"
  have k: "fst ?n = (st\<lparr>window := d\<rparr>)\<lparr>cooldowns := cooldowns (fst ?n)\<rparr>"
    by (rule notify_keeps)
  have "current_pool (fst ?n) = current_pool st" by (subst k) simp
  then show ?thesis by (simp add: record_error_unfold [OF Some])
qed

lemma notify_window: "window (fst (notify w st t m)) = window st"
  by (subst notify_keeps) simp

lemma notify_pool: "current_pool (fst (notify w st t m)) = current_pool st"
  by (subst notify_keeps) simp

lemma check_failover_window:
  "window (after (check_failover rt w st entry)) = window st"
  by (simp add: check_failover_def Let_def split_beta notify_window
           split: sum.splits option.splits)

lemma lower_empty: "(lower s = []) = (s = [])"
  by (simp add: lower_def)

lemma pool_of_string:
  "pool_of p = Inr pool \<Longrightarrow> pool \<noteq> [] \<Longrightarrow> \<exists>s. p = JStr s \<and> pool = lower (strip s)"
  by (cases p) (auto simp add: pool_of_def strip_def strip_with_def lower_def split: if_splits)

lemma equals_200_cases: "equals_200 v \<Longrightarrow> v = JInt 200 \<or> v = JFloat (Finite 200)"
  by (erule equals_200.elims) auto

lemma check_failover_changes:
  assumes "current_pool (after (check_failover rt w st entry)) \<noteq> current_pool st"
  shows "\<exists>kvs status s. entry = JObj kvs \<and> map_of kvs ''status'' = Some status
           \<and> (status = JInt 200 \<or> status = JFloat (Finite 200))
           \<and> map_of kvs ''pool'' = Some (JStr s) \<and> strip s \<noteq> []
           \<and> current_pool (after (check_failover rt w st entry)) = Some (lower (strip s))"
proof (cases entry)
  case (JObj kvs)
  let ?status = "case map_of kvs ''status'' of None \<Rightarrow> JNull | Some v \<Rightarrow> v"
  let ?p = "case map_of kvs ''pool'' of None \<Rightarrow> JNull | Some v \<Rightarrow> v"
  from assms JObj obtain pool where pool: "pool_of ?p = Inr pool"
    by (auto simp add: check_failover_def split: sum.splits)
  from assms JObj pool have ne: "pool \<noteq> []" and eq: "equals_200 ?status"
    by (auto simp add: check_failover_def Let_def split: if_splits)
  from assms JObj pool ne eq
  have now: "current_pool (after (check_failover rt w st entry)) = Some pool"
    by (auto simp add: check_failover_def Let_def split_beta notify_pool
             split: if_splits option.splits)
  from pool_of_string [OF pool ne] obtain s where s: "?p = JStr s" "pool = lower (strip s)"
    by blast
  from s(1) have mp: "map_of kvs ''pool'' = Some (JStr s)" by (auto split: option.splits)
  from equals_200_cases [OF eq] have "?status = JInt 200 \<or> ?status = JFloat (Finite 200)" .
  then obtain status where ms: "map_of kvs ''status'' = Some status"
    and sv: "status = JInt 200 \<or> status = JFloat (Finite 200)"
    by (auto split: option.splits)
  from ne s(2) have "strip s \<noteq> []" by (simp add: lower_empty)
  with JObj ms sv mp now s(2) show ?thesis by blast
next
qed (use assms in \<open>simp_all add: check_failover_def\<close>)

lemma process_line_after:
  "after (process_line rt w1 w2 st line) =
     (if \<not> truthy (fst (parse_entry rt line)) then st
      else (case record_error rt w1 st (fst (parse_entry rt line)) of
              Raised e st1 fx1 \<Rightarrow> st1
            | Returned st1 fx1 \<Rightarrow> after (check_failover rt w2 st1 (fst (parse_entry rt line)))))"
  by (simp add: process_line_def split_beta split: outcome.splits)

text \<open>
  C5, as the code has it. Processing a line changes the tracked pool only if the line
  decodes to an object whose \<open>status\<close> is the number 200, that is the integer 200 or
  the float 200.0, which Python's \<open>!=\<close> does not tell apart (a string such as "200" does
  not qualify), and whose \<open>pool\<close> is a string that is not empty after trimming; the
  tracked pool is then that string, trimmed and in lower case. Every other line leaves
  the tracked pool as it was, also when the call raises.
\<close>

theorem tracked_pool_changes_on_200:
  assumes "current_pool (after (process_line rt w1 w2 st line)) \<noteq> current_pool st"
  shows "\<exists>kvs status s. fst (parse_entry rt line) = JObj kvs
           \<and> map_of kvs ''status'' = Some status
           \<and> (status = JInt 200 \<or> status = JFloat (Finite 200))
           \<and> map_of kvs ''pool'' = Some (JStr s) \<and> strip s \<noteq> []
           \<and> current_pool (after (process_line rt w1 w2 st line)) = Some (lower (strip s))"
proof -
  let ?entry = "fst (parse_entry rt line)"
  from assms have t: "truthy ?entry" by (auto simp add: process_line_after split: if_splits)
  show ?thesis
  proof (cases "record_error rt w1 st ?entry")
    case (Raised e st1 fx1)
    with record_error_pool [of rt w1 st ?entry] t assms show ?thesis
      by (simp add: process_line_after)
  next
    case (Returned st1 fx1)
    with record_error_pool [of rt w1 st ?entry] have p1: "current_pool st1 = current_pool st"
      by simp
    from Returned t have a: "after (process_line rt w1 w2 st line)
                              = after (check_failover rt w2 st1 ?entry)"
      by (simp add: process_line_after)
    with assms p1 have "current_pool (after (check_failover rt w2 st1 ?entry)) \<noteq> current_pool st1"
      by simp
    from check_failover_changes [OF this] a show ?thesis by simp
  qed
qed

theorem tracked_pool_changes_on_200_witness:
  "current_pool (after (process_line sample_runtime sample_world sample_world sample_watcher
                          float_status_line)) \<noteq> current_pool sample_watcher
   \<and> (\<exists>kvs status s. fst (parse_entry sample_runtime float_status_line) = JObj kvs
           \<and> map_of kvs ''status'' = Some status
           \<and> (status = JInt 200 \<or> status = JFloat (Finite 200))
           \<and> map_of kvs ''pool'' = Some (JStr s) \<and> strip s \<noteq> []
           \<and> current_pool (after (process_line sample_runtime sample_world sample_world
                                     sample_watcher float_status_line))
               = Some (lower (strip s)))"
proof -
  have h: "current_pool (after (process_line sample_runtime sample_world sample_world
                                  sample_watcher float_status_line))
             \<noteq> current_pool sample_watcher"
    by code_simp
  from tracked_pool_changes_on_200 [OF h] h show ?thesis by blast
qed

text \<open>
  C5 as it is stated fails: the status of this line is the float 200.0, not the integer
  200, and the tracked pool changes from unset to blue.
\<close>

theorem pool_changes_on_float_200:
  "fst (parse_entry sample_runtime float_status_line)
     = JObj [(''status'', JFloat (Finite 200)), (''pool'', JStr ''blue'')]
   \<and> current_pool sample_watcher = None
   \<and> current_pool (after (process_line sample_runtime sample_world sample_world sample_watcher
                            float_status_line)) = Some ''blue''"
  by code_simp

text \<open>
  C6. Take an entry with status 200 and a pool that, trimmed and in lower case, is not
  empty and differs from the tracked pool. If no pool was tracked, the call writes the
  one diagnostic line and hands no alert to the gate. If a pool \<open>prev\<close> was tracked, it
  hands over exactly one alert: \<open>recovery\<close> when a primary pool is configured and the new
  pool equals it, \<open>failover\<close> otherwise. The release in the texts is \<open>unknown\<close> when the
  entry has none.
\<close>

theorem pool_transition_events:
  assumes "py_get entry ''status'' = Inr status" and "equals_200 status"
    and "py_get entry ''pool'' = Inr (JStr s)" and "lower (strip s) \<noteq> []"
    and "py_get entry ''release'' = Inr r"
    and "current_pool st \<noteq> Some (lower (strip s))"
  shows "(current_pool st = None \<longrightarrow>
            check_failover rt w st entry =
              Returned (st\<lparr>current_pool := Some (lower (strip s))\<rparr>)
                [Log (initial_message (lower (strip s)) (release_of rt r))])
       \<and> (\<forall>prev. current_pool st = Some prev \<longrightarrow>
            (\<exists>st' fx. check_failover rt w st entry = Returned st' fx
               \<and> current_pool st' = Some (lower (strip s))
               \<and> filter is_alert fx =
                   [if primary_pool st \<noteq> [] \<and> lower (strip s) = primary_pool st
                    then Event ''recovery''
                           (recovery_message (lower (strip s)) prev (release_of rt r))
                    else Event ''failover''
                           (failover_message prev (lower (strip s)) (release_of rt r))]))
       \<and> (r = JNull \<longrightarrow> release_of rt r = ''unknown'')"
proof -
  from assms(4) have "s \<noteq> []" by (auto simp add: lower_def strip_def strip_with_def)
  then have pool: "pool_of (JStr s) = Inr (lower (strip s))" by (simp add: pool_of_def)
  show ?thesis
    using assms(1,2,3,4,5,6) pool
    by (auto simp add: check_failover_def Let_def split_beta notify_pool notify_alerts
                       release_of_def)
qed

theorem pool_transition_events_witness:
  "py_get green_entry ''status'' = Inr (JInt 200) \<and> equals_200 (JInt 200)
   \<and> py_get green_entry ''pool'' = Inr (JStr '' Green '')
   \<and> lower (strip '' Green '') \<noteq> []
   \<and> py_get green_entry ''release'' = Inr (JStr ''v2'')
   \<and> py_get ok_entry ''status'' = Inr (JInt 200)
   \<and> py_get ok_entry ''pool'' = Inr (JStr ''blue'')
   \<and> lower (strip ''blue'') \<noteq> []
   \<and> py_get ok_entry ''release'' = Inr JNull
   \<and> current_pool sample_watcher = None
   \<and> check_failover sample_runtime sample_world sample_watcher ok_entry =
        Returned (sample_watcher\<lparr>current_pool := Some (lower (strip ''blue''))\<rparr>)
          [Log (initial_message (lower (strip ''blue'')) (release_of sample_runtime JNull))]
   \<and> release_of sample_runtime JNull = ''unknown''
   \<and> current_pool green_watcher = Some ''green''
   \<and> (\<exists>st' fx. check_failover sample_runtime sample_world green_watcher ok_entry
                   = Returned st' fx
         \<and> current_pool st' = Some (lower (strip ''blue''))
         \<and> filter is_alert fx =
             [if primary_pool green_watcher \<noteq> []
                   \<and> lower (strip ''blue'') = primary_pool green_watcher
              then Event ''recovery''
                     (recovery_message (lower (strip ''blue'')) ''green''
                        (release_of sample_runtime JNull))
              else Event ''failover''
                     (failover_message ''green'' (lower (strip ''blue''))
                        (release_of sample_runtime JNull))])
   \<and> primary_pool green_watcher = lower (strip ''blue'')
   \<and> current_pool blue_watcher = Some ''blue''
   \<and> (\<exists>st' fx. check_failover sample_runtime maintenance_world blue_watcher green_entry
                   = Returned st' fx
         \<and> current_pool st' = Some (lower (strip '' Green ''))
         \<and> filter is_alert fx =
             [if primary_pool blue_watcher \<noteq> []
                   \<and> lower (strip '' Green '') = primary_pool blue_watcher
              then Event ''recovery''
                     (recovery_message (lower (strip '' Green '')) ''blue''
                        (release_of sample_runtime (JStr ''v2'')))
              else Event ''failover''
                     (failover_message ''blue'' (lower (strip '' Green ''))
                        (release_of sample_runtime (JStr ''v2'')))])
   \<and> primary_pool blue_watcher \<noteq> lower (strip '' Green '')"
proof -
  have g1: "py_get green_entry ''status'' = Inr (JInt 200)" by code_simp
  have e2: "equals_200 (JInt 200)" by simp
  have g3: "py_get green_entry ''pool'' = Inr (JStr '' Green '')" by code_simp
  have g4: "lower (strip '' Green '') \<noteq> []" by code_simp
  have g5: "py_get green_entry ''release'' = Inr (JStr ''v2'')" by code_simp
  have g6: "current_pool blue_watcher \<noteq> Some (lower (strip '' Green ''))" by code_simp
  have o1: "py_get ok_entry ''status'' = Inr (JInt 200)" by code_simp
  have o3: "py_get ok_entry ''pool'' = Inr (JStr ''blue'')" by code_simp
  have o4: "lower (strip ''blue'') \<noteq> []" by code_simp
  have o5: "py_get ok_entry ''release'' = Inr JNull" by code_simp
  have o6: "current_pool sample_watcher \<noteq> Some (lower (strip ''blue''))" by code_simp
  have o7: "current_pool green_watcher \<noteq> Some (lower (strip ''blue''))" by code_simp
  have s0: "current_pool sample_watcher = None" by code_simp
  have s1: "current_pool green_watcher = Some ''green''" by code_simp
  have s2: "current_pool blue_watcher = Some ''blue''" by code_simp
  have p1: "primary_pool green_watcher = lower (strip ''blue'')" by code_simp
  have p2: "primary_pool blue_watcher \<noteq> lower (strip '' Green '')" by code_simp
  note init_step = pool_transition_events [OF o1 e2 o3 o4 o5 o6, of sample_runtime sample_world]
  note return_step = pool_transition_events [OF o1 e2 o3 o4 o5 o7, of sample_runtime sample_world]
  note leave_step = pool_transition_events [OF g1 e2 g3 g4 g5 g6, of sample_runtime maintenance_world]
  from init_step s0 have c0:
    "check_failover sample_runtime sample_world sample_watcher ok_entry =
        Returned (sample_watcher\<lparr>current_pool := Some (lower (strip ''blue''))\<rparr>)
          [Log (initial_message (lower (strip ''blue'')) (release_of sample_runtime JNull))]"
    by blast
  from init_step have c1: "release_of sample_runtime JNull = ''unknown''" by blast
  from return_step s1 have c2:
    "\<exists>st' fx. check_failover sample_runtime sample_world green_watcher ok_entry
                   = Returned st' fx
         \<and> current_pool st' = Some (lower (strip ''blue''))
         \<and> filter is_alert fx =
             [if primary_pool green_watcher \<noteq> []
                   \<and> lower (strip ''blue'') = primary_pool green_watcher
              then Event ''recovery''
                     (recovery_message (lower (strip ''blue'')) ''green''
                        (release_of sample_runtime JNull))
              else Event ''failover''
                     (failover_message ''green'' (lower (strip ''blue''))
                        (release_of sample_runtime JNull))]"
    by blast
  from leave_step s2 have c3:
    "\<exists>st' fx. check_failover sample_runtime maintenance_world blue_watcher green_entry
                   = Returned st' fx
         \<and> current_pool st' = Some (lower (strip '' Green ''))
         \<and> filter is_alert fx =
             [if primary_pool blue_watcher \<noteq> []
                   \<and> lower (strip '' Green '') = primary_pool blue_watcher
              then Event ''recovery''
                     (recovery_message (lower (strip '' Green '')) ''blue''
                        (release_of sample_runtime (JStr ''v2'')))
              else Event ''failover''
                     (failover_message ''blue'' (lower (strip '' Green ''))
                        (release_of sample_runtime (JStr ''v2'')))]"
    by blast
  from g1 e2 g3 g4 g5 o1 o3 o4 o5 s0 s1 s2 p1 p2 c0 c1 c2 c3 show ?thesis by blast
qed

lemma process_line_window:
  assumes "truthy (fst (parse_entry rt line))"
    and "window_after rt (window st) (fst (parse_entry rt line)) = Some d"
  shows "window (after (process_line rt w1 w2 st line)) = d"
proof (cases "record_error rt w1 st (fst (parse_entry rt line))")
  case (Returned st1 fx1)
  with record_error_window [OF assms(2), of w1] have "window st1 = d" by simp
  with Returned assms(1) show ?thesis
    by (simp add: process_line_after check_failover_window)
next
  case (Raised e st1 fx1)
  with record_error_window [OF assms(2), of w1] have "window st1 = d" by simp
  with Raised assms(1) show ?thesis by (simp add: process_line_after)
qed

text \<open>
  C2, as the code has it. A line that decodes to an object with at least one field,
  and whose classification returns \<open>b\<close>, appends exactly one observation, 1 if \<open>b\<close> else
  0, to a window of capacity at least 1, dropping the oldest one when the window is
  full; this holds whether or not the pool check that follows raises. A line that
  decodes to the empty object is skipped like a blank line: the object is unchanged.
\<close>

theorem one_observation_per_object:
  assumes "fst (parse_entry rt line) = JObj kvs" and "kvs \<noteq> []"
    and "is_error rt (JObj kvs) = Inr b"
    and "1 \<le> maxlen (window st)" and "length (items (window st)) \<le> maxlen (window st)"
    and "fst (parse_entry rt line0) = JObj []"
  shows "items (window (after (process_line rt w1 w2 st line))) =
           (if length (items (window st)) < maxlen (window st)
            then items (window st) @ [if b then 1 else 0]
            else tl (items (window st)) @ [if b then 1 else 0])
       \<and> maxlen (window (after (process_line rt w1 w2 st line))) = maxlen (window st)
       \<and> process_line rt w1 w2 st line0 = Returned st (snd (parse_entry rt line0))"
proof -
  let ?d = "deque_append (window st) (if b then 1 else 0)"
  from assms(1,3) have wa: "window_after rt (window st) (fst (parse_entry rt line)) = Some ?d"
    by (simp add: window_after_def)
  from assms(1,2) have t: "truthy (fst (parse_entry rt line))" by simp
  have w: "window (after (process_line rt w1 w2 st line)) = ?d"
    by (rule process_line_window [OF t wa])
  have skip: "process_line rt w1 w2 st line0 = Returned st (snd (parse_entry rt line0))"
    using assms(6) by (simp add: process_line_def split_beta)
  from w skip show ?thesis
    by (simp add: deque_append_items [OF assms(4,5)])
qed

theorem one_observation_per_object_witness:
  "fst (parse_entry sample_runtime error_line) = JObj [(''status'', JInt 503)]
   \<and> [(''status'', JInt 503)] \<noteq> ([] :: (string \<times> json) list)
   \<and> is_error sample_runtime (JObj [(''status'', JInt 503)]) = Inr True
   \<and> 1 \<le> maxlen (window warm_watcher)
   \<and> length (items (window warm_watcher)) \<le> maxlen (window warm_watcher)
   \<and> fst (parse_entry sample_runtime ''{}'') = JObj []
   \<and> items (window (after (process_line sample_runtime sample_world sample_world warm_watcher
                             error_line))) =
           (if length (items (window warm_watcher)) < maxlen (window warm_watcher)
            then items (window warm_watcher) @ [if True then 1 else 0]
            else tl (items (window warm_watcher)) @ [if True then 1 else 0])
   \<and> maxlen (window (after (process_line sample_runtime sample_world sample_world warm_watcher
                              error_line))) = maxlen (window warm_watcher)
   \<and> process_line sample_runtime sample_world sample_world warm_watcher ''{}''
       = Returned warm_watcher (snd (parse_entry sample_runtime ''{}''))"
proof -
  have h1: "fst (parse_entry sample_runtime error_line) = JObj [(''status'', JInt 503)]"
    by code_simp
  have h2: "[(''status'', JInt 503)] \<noteq> ([] :: (string \<times> json) list)" by simp
  have h3: "is_error sample_runtime (JObj [(''status'', JInt 503)]) = Inr True" by code_simp
  have h4: "1 \<le> maxlen (window warm_watcher)" by code_simp
  have h5: "length (items (window warm_watcher)) \<le> maxlen (window warm_watcher)" by code_simp
  have h6: "fst (parse_entry sample_runtime ''{}'') = JObj []" by code_simp
  from one_observation_per_object [OF h1 h2 h3 h4 h5 h6, of sample_world sample_world]
  show ?thesis using h1 h2 h3 h4 h5 h6 by blast
qed

text \<open>
  C2 as it is stated fails: the line \<open>{}\<close> decodes to an object, and the window, which
  holds one observation, is the same afterwards.
\<close>

theorem empty_object_appends_nothing:
  "fst (parse_entry sample_runtime ''{}'') = JObj []
   \<and> items (window warm_watcher) = [1]
   \<and> window (after (process_line sample_runtime sample_world sample_world warm_watcher ''{}''))
       = window warm_watcher"
  by code_simp

text \<open>
  C1 fails on the code. The claim: no line makes the pipeline raise, also not a line
  that decodes to a number, a boolean, a string or an array. The line \<open>5\<close> decodes to the
  number 5, which counts as true and has no \<open>get\<close>: \<open>process_line\<close> raises
  \<open>AttributeError\<close>.
\<close>

theorem number_line_raises:
  "fst (parse_entry sample_runtime ''5'') = JInt 5
   \<and> process_line sample_runtime sample_world sample_world sample_watcher ''5''
       = Raised AttributeError sample_watcher []"
  by code_simp

text \<open>
  C3 fails on the code. The claim: every entry is classified, as an error exactly if
  the resolved code is at least 500. For the line \<open>{"status": 1e999}\<close> the resolved code is
  the float infinity, \<open>int\<close> raises \<open>OverflowError\<close>, which \<open>_is_error\<close> does not catch, and
  no classification is returned. For every other entry the classification is the
  claimed one (\<open>is_error_matches_spec\<close> below).
\<close>

theorem infinite_status_raises:
  "fst (parse_entry sample_runtime infinite_status_line) = JObj [(''status'', JFloat PosInf)]
   \<and> is_error sample_runtime (JObj [(''status'', JFloat PosInf)]) = Inl OverflowError
   \<and> process_line sample_runtime sample_world sample_world sample_watcher infinite_status_line
       = Raised OverflowError sample_watcher []"
  by code_simp

subsection \<open>The classification against its description\<close>

lemma int_of_str_empty: "int_of_str [] = None"
  by (simp add: int_of_str_def strip_with_def)

text \<open>The loop of \<open>_first_status\<close> finds the first token that is an integer.\<close>

lemma first_parsed_find:
  "first_parsed parts =
     (case List.find (\<lambda>t. int_of_str t \<noteq> None) (map strip parts) of
        None \<Rightarrow> None
      | Some t \<Rightarrow> int_of_str t)"
  by (induction parts) (auto simp add: Let_def int_of_str_empty split: option.splits)

lemma first_status_tokens:
  "first_status rt v =
     (case List.find (\<lambda>t. int_of_str t \<noteq> None) (tokens_of rt v) of
        None \<Rightarrow> None
      | Some t \<Rightarrow> int_of_str t)"
  by (cases v) (simp_all add: first_status_def tokens_of_def first_parsed_find comp_def)

lemma trunc_rat_500: "(500 \<le> trunc_rat q) = (500 \<le> q)"
  by (auto simp add: trunc_rat_def le_floor_iff le_ceiling_iff)

lemma status_is_error_spec:
  "v \<noteq> JFloat PosInf \<Longrightarrow> v \<noteq> JFloat NegInf \<Longrightarrow> status_is_error v = Inr (code_at_least_500 v)"
proof (cases v)
  case (JFloat f)
  assume "v \<noteq> JFloat PosInf" "v \<noteq> JFloat NegInf"
  with JFloat show ?thesis
    by (cases f) (simp_all add: status_is_error_def trunc_rat_500)
qed (simp_all add: status_is_error_def split: option.splits)

text \<open>Unless the resolved code is an infinite float, \<open>_is_error\<close> returns the classification
  of the description; for an infinite float it raises.\<close>

lemma is_error_matches_spec:
  assumes "resolved_code rt kvs \<noteq> JFloat PosInf" and "resolved_code rt kvs \<noteq> JFloat NegInf"
  shows "is_error rt (JObj kvs) = Inr (spec_is_error rt kvs)"
proof -
  let ?u = "case map_of kvs ''upstream_status'' of None \<Rightarrow> JNull | Some v \<Rightarrow> v"
  let ?s = "case map_of kvs ''status'' of None \<Rightarrow> JNull | Some v \<Rightarrow> v"
  show ?thesis
  proof (cases "List.find (\<lambda>t. int_of_str t \<noteq> None) (tokens_of rt ?u)")
    case None
    then have rc: "resolved_code rt kvs = ?s" by (simp add: resolved_code_def)
    from None have "first_status rt ?u = None" by (simp add: first_status_tokens)
    then have "is_error rt (JObj kvs) = status_is_error ?s" by (simp add: is_error_def)
    with assms rc show ?thesis by (simp add: status_is_error_spec spec_is_error_def)
  next
    case (Some t)
    then have rc: "resolved_code rt kvs = JStr t" by (simp add: resolved_code_def)
    from Some have "int_of_str t \<noteq> None" by (auto dest: find_Some_iff [THEN iffD1])
    then obtain n where n: "int_of_str t = Some n" by auto
    from Some n have "first_status rt ?u = Some n" by (simp add: first_status_tokens)
    then have "is_error rt (JObj kvs) = Inr (500 \<le> n)"
      by (simp add: is_error_def status_is_error_def)
    with rc n show ?thesis by (simp add: spec_is_error_def)
  qed
qed

lemma is_error_overflow:
  assumes "resolved_code rt kvs = JFloat PosInf \<or> resolved_code rt kvs = JFloat NegInf"
  shows "is_error rt (JObj kvs) = Inl OverflowError"
proof -
  let ?u = "case map_of kvs ''upstream_status'' of None \<Rightarrow> JNull | Some v \<Rightarrow> v"
  let ?s = "case map_of kvs ''status'' of None \<Rightarrow> JNull | Some v \<Rightarrow> v"
  from assms have none: "List.find (\<lambda>t. int_of_str t \<noteq> None) (tokens_of rt ?u) = None"
    by (auto simp add: resolved_code_def split: option.splits)
  with assms have "?s = JFloat PosInf \<or> ?s = JFloat NegInf"
    by (simp add: resolved_code_def)
  moreover from none have "first_status rt ?u = None" by (simp add: first_status_tokens)
  ultimately show ?thesis by (auto simp add: is_error_def status_is_error_def)
qed

text \<open>\<open>upstream_status = "502, 200"\<close> is an error, whatever the other fields are.\<close>

lemma first_hop_decides:
  "map_of kvs ''upstream_status'' = Some (JStr ''502, 200'') \<Longrightarrow>
   is_error rt (JObj kvs) = Inr True"
proof -
  assume u: "map_of kvs ''upstream_status'' = Some (JStr ''502, 200'')"
  have "first_status rt (JStr ''502, 200'') = Some 502" by code_simp
  with u show ?thesis by (simp add: is_error_def status_is_error_def)
qed

end
